theory Spec2Isabelle
  imports Main "HOL-Library.Word" "HOL-Library.Monad_Syntax"
begin

unbundle bit_operations_syntax

section \<open>The BMP filter of qdbmp.c\<close>

text \<open>
  A shallow embedding of \<^verbatim>\<open>src/qdbmp.c\<close>: the little-endian field readers
  \<^verbatim>\<open>ReadUSHORT\<close> and \<^verbatim>\<open>ReadUINT\<close>, the header reader \<^verbatim>\<open>ReadHeader\<close> and the
  filter's \<^verbatim>\<open>QDBMP_process\<close>. The header \<^verbatim>\<open>qdbmp.h\<close> and gpac's
  \<^verbatim>\<open>filters.h\<close> are not among the repository's files; what is taken from them
  is marked where it is introduced.
\<close>

subsection \<open>Types\<close>

text \<open>
  Modelled from the spec: the integer types \<^verbatim>\<open>UCHAR\<close>, \<^verbatim>\<open>USHORT\<close> and \<^verbatim>\<open>UINT\<close> are
  declared in \<^verbatim>\<open>qdbmp.h\<close>, which is missing. The spec's file layout gives the
  fields 1, 2 and 4 bytes, and the source says "BMPs use 32 bit ints" and "BMPs use
  16 bit shorts", so \<^verbatim>\<open>UINT\<close> is taken as 32 bits wide and \<^verbatim>\<open>USHORT\<close> as 16.
\<close>

type_synonym UCHAR = "8 word"
type_synonym USHORT = "16 word"
type_synonym UINT = "32 word"
type_synonym u8 = "8 word"
type_synonym u32 = "32 word"

text \<open>
  A \<^verbatim>\<open>FILE*\<close> opened by \<^verbatim>\<open>fmemopen(data, size, "rb")\<close> is the list of the bytes
  from the read cursor to the end of the buffer. \<^verbatim>\<open>fmemopen\<close> is taken to succeed.
\<close>

type_synonym FILE = "UCHAR list"

text \<open>The members of \<^verbatim>\<open>BMP_STATUS\<close> that qdbmp.c names.\<close>

datatype BMP_STATUS =
  BMP_OK | BMP_OUT_OF_MEMORY | BMP_IO_ERROR | BMP_FILE_NOT_SUPPORTED
  | BMP_FILE_INVALID | BMP_INVALID_ARGUMENT

text \<open>The members of gpac's \<^verbatim>\<open>GF_Err\<close> that qdbmp.c returns.\<close>

datatype GF_Err =
  GF_OK | GF_EOS | GF_OUT_OF_MEM | GF_CORRUPTED_DATA | GF_NOT_SUPPORTED

text \<open>
  \<^verbatim>\<open>bmp->Header\<close>: the sixteen fields that \<^verbatim>\<open>ReadHeader\<close> fills, in the order it
  reads them, each with the width of the reader that fills it.
\<close>

record BMP_Header =
  Magic :: USHORT
  FileSize :: UINT
  Reserved1 :: USHORT
  Reserved2 :: USHORT
  DataOffset :: UINT
  HeaderSize :: UINT
  Width :: UINT
  Height :: UINT
  Planes :: USHORT
  BitsPerPixel :: USHORT
  CompressionType :: UINT
  ImageDataSize :: UINT
  HPixelsPerMeter :: UINT
  VPixelsPerMeter :: UINT
  ColorsUsed :: UINT
  ColorsRequired :: UINT

subsection \<open>Reading little-endian fields (lines 46--87)\<close>

text \<open>
  \<^verbatim>\<open>fread(little, 4, 1, f) != 1\<close> fails when fewer than four bytes are left.
  Otherwise \<^verbatim>\<open>*x = little[3] << 24 | little[2] << 16 | little[1] << 8 | little[0]\<close>,
  and the cursor has moved four bytes on. The shifts are C \<^verbatim>\<open>int\<close> shifts whose
  result is then stored in a 32-bit unsigned: the value is the one of the shifts done
  at 32 bits. \<^verbatim>\<open>None\<close> is the return value 0, \<^verbatim>\<open>Some\<close> the return value 1 with
  the value stored through \<^verbatim>\<open>x\<close> and the file after the read. The pointers are
  never \<^verbatim>\<open>NULL\<close> at the calls in this file.
\<close>

definition ReadUINT :: "FILE \<Rightarrow> (UINT \<times> FILE) option" where
  "ReadUINT f =
     (if length f < 4 then None
      else Some (push_bit 24 (ucast (f ! 3)) OR push_bit 16 (ucast (f ! 2))
                   OR push_bit 8 (ucast (f ! 1)) OR ucast (f ! 0),
                 drop 4 f))"

definition ReadUSHORT :: "FILE \<Rightarrow> (USHORT \<times> FILE) option" where
  "ReadUSHORT f =
     (if length f < 2 then None
      else Some (push_bit 8 (ucast (f ! 1)) OR ucast (f ! 0), drop 2 f))"

subsection \<open>Reading the header (lines 125--152)\<close>

text \<open>
  The fields are read one after the other; the first read that fails ends the
  function with \<^verbatim>\<open>BMP_IO_ERROR\<close>. \<^verbatim>\<open>read_fields\<close> is that chain of reads in the
  option monad, \<^verbatim>\<open>ReadHeader\<close> gives its failure the status the source returns.
\<close>

definition read_fields :: "FILE \<Rightarrow> (BMP_Header \<times> FILE) option" where
  "read_fields f0 = do {
     (magic, f1) \<leftarrow> ReadUSHORT f0;
     (filesize, f2) \<leftarrow> ReadUINT f1;
     (reserved1, f3) \<leftarrow> ReadUSHORT f2;
     (reserved2, f4) \<leftarrow> ReadUSHORT f3;
     (dataoffset, f5) \<leftarrow> ReadUINT f4;
     (headersize, f6) \<leftarrow> ReadUINT f5;
     (width, f7) \<leftarrow> ReadUINT f6;
     (height, f8) \<leftarrow> ReadUINT f7;
     (planes, f9) \<leftarrow> ReadUSHORT f8;
     (bitsperpixel, f10) \<leftarrow> ReadUSHORT f9;
     (compressiontype, f11) \<leftarrow> ReadUINT f10;
     (imagedatasize, f12) \<leftarrow> ReadUINT f11;
     (hpixelspermeter, f13) \<leftarrow> ReadUINT f12;
     (vpixelspermeter, f14) \<leftarrow> ReadUINT f13;
     (colorsused, f15) \<leftarrow> ReadUINT f14;
     (colorsrequired, f16) \<leftarrow> ReadUINT f15;
     Some (\<lparr>Magic = magic, FileSize = filesize, Reserved1 = reserved1,
            Reserved2 = reserved2, DataOffset = dataoffset, HeaderSize = headersize,
            Width = width, Height = height, Planes = planes,
            BitsPerPixel = bitsperpixel, CompressionType = compressiontype,
            ImageDataSize = imagedatasize, HPixelsPerMeter = hpixelspermeter,
            VPixelsPerMeter = vpixelspermeter, ColorsUsed = colorsused,
            ColorsRequired = colorsrequired\<rparr>, f16)
   }"

definition ReadHeader :: "FILE \<Rightarrow> BMP_STATUS + (BMP_Header \<times> FILE)" where
  "ReadHeader f =
     (case read_fields f of None \<Rightarrow> Inl BMP_IO_ERROR | Some r \<Rightarrow> Inr r)"

subsection \<open>The filter's state\<close>

text \<open>
  gpac's pixel-format codes are constants of \<^verbatim>\<open>filters.h\<close>; only their identity
  matters here. A property value is what \<^verbatim>\<open>PROP_UINT\<close> wraps: a number, or one of
  these codes.
\<close>

datatype GF_PixelFormat = GF_PIXEL_RGB | GF_PIXEL_RGBX

datatype GF_PropertyValue = PROP_UINT u32 | PROP_UINT_PIXEL GF_PixelFormat

datatype GF_Property =
  GF_PROP_PID_PIXFMT | GF_PROP_PID_WIDTH | GF_PROP_PID_HEIGHT | GF_PROP_PID_STRIDE

text \<open>
  The buffer of an output packet: one entry for each byte allocated by
  \<^verbatim>\<open>gf_filter_pck_new_alloc\<close>, \<^verbatim>\<open>None\<close> for a byte that nothing has written since
  the allocation.
\<close>

type_synonym buffer = "u8 option list"

text \<open>
  What a call of \<^verbatim>\<open>QDBMP_process\<close> can see and change beyond its locals:
  the packets waiting on the input pid (\<^verbatim>\<open>gf_filter_pid_get_packet\<close> returns the
  first, \<^verbatim>\<open>gf_filter_pid_drop_packet\<close> removes it) and its end-of-stream flag; on
  the output pid the end-of-stream flag, the properties, the packets sent, and the
  packets allocated and never sent; and the file's static variable
  \<^verbatim>\<open>BMP_LAST_ERROR_CODE\<close> (line 37). Both pids exist: \<^verbatim>\<open>QDBMP_configure_pid\<close>
  has run.
\<close>

record filter_state =
  ipid_packets :: "u8 list list"
  ipid_eos :: bool
  opid_eos :: bool
  opid_props :: "GF_Property \<rightharpoonup> GF_PropertyValue"
  opid_sent :: "buffer list"
  opid_unsent :: "buffer list"
  BMP_LAST_ERROR_CODE :: BMP_STATUS

text \<open>
  What the C program leaves open. \<^verbatim>\<open>u32 palettesize;\<close> (line 252) has no
  initialiser and lines 284--285 assign it only for 8 and 4 bits per pixel, so for
  any other depth line 299 reads whatever the variable holds:
  \<^verbatim>\<open>uninit_palettesize\<close>. The two allocations whose failure the source tests
  (lines 268 and 301) succeed or not. \<^verbatim>\<open>gf_filter_pck_new_alloc\<close>, whose result the
  source does not test, is taken to succeed.
\<close>

record env =
  uninit_palettesize :: u32
  bmp_alloc_ok :: bool
  palette_alloc_ok :: bool

subsection \<open>The stages of \<^verbatim>\<open>QDBMP_process\<close> (lines 245--525)\<close>

text \<open>
  Modelled from the spec: \<^verbatim>\<open>BMP_GetWidth\<close>, \<^verbatim>\<open>BMP_GetHeight\<close> and
  \<^verbatim>\<open>BMP_GetDepth\<close> are declared in \<^verbatim>\<open>qdbmp.h\<close>, which is missing. The spec's
  output contract (a buffer of \<^verbatim>\<open>width*height*4\<close> bytes for the header's width
  and height, decoded by the header's bits-per-pixel) makes them the readers of the
  header fields. The products at lines 324 and 329 are then \<^verbatim>\<open>UINT\<close> products,
  taken modulo \<open>2 ^ 32\<close>.
\<close>

definition BMP_GetWidth :: "BMP_Header \<Rightarrow> UINT" where
  "BMP_GetWidth h = Width h"

definition BMP_GetHeight :: "BMP_Header \<Rightarrow> UINT" where
  "BMP_GetHeight h = Height h"

definition BMP_GetDepth :: "BMP_Header \<Rightarrow> USHORT" where
  "BMP_GetDepth h = BitsPerPixel h"

text \<open>
  The two tests on the header. Line 276 (after \<^verbatim>\<open>ReadHeader\<close> has succeeded):
  a magic other than \<^verbatim>\<open>0x4D42\<close> sets the last error to \<^verbatim>\<open>BMP_FILE_INVALID\<close> and
  returns \<^verbatim>\<open>GF_CORRUPTED_DATA\<close>. Lines 288--296: a depth outside 32, 24, 8, 4, a
  compression type other than 0 or a header size other than 40 sets
  \<^verbatim>\<open>BMP_FILE_NOT_SUPPORTED\<close> and returns \<^verbatim>\<open>GF_NOT_SUPPORTED\<close>. \<^verbatim>\<open>None\<close>: both
  tests passed.
\<close>

definition validate :: "BMP_Header \<Rightarrow> (GF_Err \<times> BMP_STATUS) option" where
  "validate h =
     (if Magic h \<noteq> 0x4D42 then Some (GF_CORRUPTED_DATA, BMP_FILE_INVALID)
      else if (BitsPerPixel h \<noteq> 32 \<and> BitsPerPixel h \<noteq> 24
               \<and> BitsPerPixel h \<noteq> 8 \<and> BitsPerPixel h \<noteq> 4)
              \<or> CompressionType h \<noteq> 0 \<or> HeaderSize h \<noteq> 40
      then Some (GF_NOT_SUPPORTED, BMP_FILE_NOT_SUPPORTED)
      else None)"

text \<open>
  Lines 284--285: \<^verbatim>\<open>BMP_PALETTE_SIZE_8bpp\<close> is \<^verbatim>\<open>256 * 4\<close> and
  \<^verbatim>\<open>BMP_PALETTE_SIZE_4bpp\<close> is \<^verbatim>\<open>16 * 4\<close> (lines 31 and 34). The second
  assignment comes last in the source, so it is tested first here; the two conditions
  exclude each other.
\<close>

definition palettesize_of :: "env \<Rightarrow> BMP_Header \<Rightarrow> u32" where
  "palettesize_of e h =
     (if BitsPerPixel h = 4 then 16 * 4
      else if BitsPerPixel h = 8 then 256 * 4
      else uninit_palettesize e)"

text \<open>
  Lines 299--322. \<^verbatim>\<open>fread(bmp->Palette, 1, palettesize, f)\<close> returns the number
  of bytes it could read, which is \<^verbatim>\<open>palettesize\<close> exactly when that many bytes
  are left. The result is the palette (\<^verbatim>\<open>None\<close> for \<^verbatim>\<open>NULL\<close>) and the file
  after the read.
\<close>

definition read_palette ::
  "env \<Rightarrow> u32 \<Rightarrow> FILE \<Rightarrow> (GF_Err \<times> BMP_STATUS) + (UCHAR list option \<times> FILE)" where
  "read_palette e palettesize f =
     (if palettesize > 0 then
        (if \<not> palette_alloc_ok e then Inl (GF_OUT_OF_MEM, BMP_OUT_OF_MEMORY)
         else if length f < unat palettesize then Inl (GF_CORRUPTED_DATA, BMP_FILE_INVALID)
         else Inr (Some (take (unat palettesize) f), drop (unat palettesize) f))
      else Inr (None, f))"

text \<open>
  \<^verbatim>\<open>fread(output, 1, n, f)\<close> at line 329, whose return value the source drops:
  the bytes that are left, at most \<^verbatim>\<open>n\<close> of them, are copied to the front of the
  buffer in the order of the file; the rest of the buffer stays as it was.
\<close>

definition fread_into :: "buffer \<Rightarrow> nat \<Rightarrow> FILE \<Rightarrow> buffer \<times> FILE" where
  "fread_into output n f =
     (map Some (take n f) @ drop (length (take n f)) output, drop n f)"

text \<open>
  Lines 366--377, the common end after the \<^verbatim>\<open>switch\<close>: width, height and stride
  are set on the output pid, the packet is sent and the input packet dropped.
\<close>

definition send_packet :: "BMP_Header \<Rightarrow> buffer \<Rightarrow> filter_state \<Rightarrow> filter_state" where
  "send_packet h output st =
     st\<lparr>opid_props := (opid_props st)
            (GF_PROP_PID_WIDTH \<mapsto> PROP_UINT (BMP_GetWidth h),
             GF_PROP_PID_HEIGHT \<mapsto> PROP_UINT (BMP_GetHeight h),
             GF_PROP_PID_STRIDE \<mapsto> PROP_UINT (4 * BMP_GetWidth h)),
        opid_sent := opid_sent st @ [output],
        ipid_packets := tl (ipid_packets st)\<rparr>"

text \<open>
  Lines 324--351 and the end. The packet is allocated first, with
  \<^verbatim>\<open>BMP_GetWidth(bmp)*BMP_GetHeight(bmp)*4\<close> bytes. Depth 32 sets the pixel format
  and reads the file into the buffer. Depths 24 and 8 return \<^verbatim>\<open>GF_NOT_SUPPORTED\<close>
  at once (the statements after the \<^verbatim>\<open>return\<close> of case 24 are never reached),
  with the packet allocated and not sent. Any other depth has no case and goes on to
  the end with the buffer as allocated. The third component is the file after the
  stage.
\<close>

definition decode_pixels ::
  "BMP_Header \<Rightarrow> FILE \<Rightarrow> filter_state \<Rightarrow> GF_Err \<times> filter_state \<times> FILE" where
  "decode_pixels h f st =
     (let n = unat (BMP_GetWidth h * BMP_GetHeight h * 4);
          output = replicate n None
      in if BMP_GetDepth h = 32 then
           (let st1 = st\<lparr>opid_props := (opid_props st)
                          (GF_PROP_PID_PIXFMT \<mapsto> PROP_UINT_PIXEL GF_PIXEL_RGBX)\<rparr>;
                (output1, f1) = fread_into output n f
            in (GF_OK, send_packet h output1 st1, f1))
         else if BMP_GetDepth h = 24 then
           (GF_NOT_SUPPORTED, st\<lparr>opid_unsent := opid_unsent st @ [output]\<rparr>, f)
         else if BMP_GetDepth h = 8 then
           (GF_NOT_SUPPORTED, st\<lparr>opid_unsent := opid_unsent st @ [output]\<rparr>, f)
         else (GF_OK, send_packet h output st, f))"

text \<open>
  The statements that follow the \<^verbatim>\<open>return\<close> of case 24 (lines 335--337) and
  that no execution reaches: \<^verbatim>\<open>stride\<close> is the width, a number of pixels, rounded
  up to a multiple of 4; line 338 then takes \<^verbatim>\<open>stride * 3\<close> bytes for a row.
\<close>

definition case24_stride :: "BMP_Header \<Rightarrow> UINT" where
  "case24_stride h =
     (if Width h mod 4 \<noteq> 0 then Width h + (4 - Width h mod 4) else Width h)"

text \<open>
  The whole function. Without a packet it reports the end of the stream or waits
  (lines 254--264). With one, it allocates the \<^verbatim>\<open>BMP\<close>, opens the packet's bytes
  as a file, and runs the stages; each failing stage returns at once, after setting
  \<^verbatim>\<open>BMP_LAST_ERROR_CODE\<close> where the source does.
\<close>

definition QDBMP_process :: "env \<Rightarrow> filter_state \<Rightarrow> GF_Err \<times> filter_state" where
  "QDBMP_process e st =
     (case ipid_packets st of
        [] \<Rightarrow> if ipid_eos st then (GF_EOS, st\<lparr>opid_eos := True\<rparr>) else (GF_OK, st)
      | data # _ \<Rightarrow>
          if \<not> bmp_alloc_ok e then (GF_OUT_OF_MEM, st)
          else (case ReadHeader data of
                  Inl _ \<Rightarrow> (GF_CORRUPTED_DATA, st\<lparr>BMP_LAST_ERROR_CODE := BMP_FILE_INVALID\<rparr>)
                | Inr (h, f) \<Rightarrow>
                    (case validate h of
                       Some (err, code) \<Rightarrow> (err, st\<lparr>BMP_LAST_ERROR_CODE := code\<rparr>)
                     | None \<Rightarrow>
                         (case read_palette e (palettesize_of e h) f of
                            Inl (err, code) \<Rightarrow> (err, st\<lparr>BMP_LAST_ERROR_CODE := code\<rparr>)
                          | Inr (palette, f1) \<Rightarrow>
                              (case decode_pixels h f1 st of
                                 (err, st1, f2) \<Rightarrow> (err, st1))))))"

subsection \<open>The spec's reading of a field\<close>

text \<open>
  The value of a sequence of bytes read as a little-endian number, least significant
  byte first, and the field of \<open>n\<close> bytes at offset \<open>off\<close> of a file. These two
  follow the spec's file layout, not the source; the header reader is compared with
  them.
\<close>

fun le_value :: "u8 list \<Rightarrow> nat" where
  "le_value [] = 0"
| "le_value (b # bs) = unat b + 256 * le_value bs"

definition field_at :: "u8 list \<Rightarrow> nat \<Rightarrow> nat \<Rightarrow> nat" where
  "field_at f off n = le_value (take n (drop off f))"

subsection \<open>Concrete files and states\<close>

text \<open>
  The state after \<^verbatim>\<open>QDBMP_configure_pid\<close> (line 196 sets the pixel format to
  \<^verbatim>\<open>GF_PIXEL_RGB\<close>), with the given packets waiting and no error recorded; and an
  environment in which both tested allocations succeed and the uninitialised
  \<^verbatim>\<open>palettesize\<close> holds \<open>n\<close>.
\<close>

definition configured :: "u8 list list \<Rightarrow> filter_state" where
  "configured pcks =
     \<lparr>ipid_packets = pcks, ipid_eos = False, opid_eos = False,
      opid_props = [GF_PROP_PID_PIXFMT \<mapsto> PROP_UINT_PIXEL GF_PIXEL_RGB],
      opid_sent = [], opid_unsent = [], BMP_LAST_ERROR_CODE = BMP_OK\<rparr>"

definition env_with :: "u32 \<Rightarrow> env" where
  "env_with n = \<lparr>uninit_palettesize = n, bmp_alloc_ok = True, palette_alloc_ok = True\<rparr>"

text \<open>
  The 54 header bytes of a file with magic "BM", header size 40, one plane, no
  compression, the four given bytes as width, the four given bytes as height and
  the given byte as bits per pixel; the fields the decoder never looks at are 0.
\<close>

definition header_bytes :: "u8 list \<Rightarrow> u8 list \<Rightarrow> u8 \<Rightarrow> u8 list" where
  "header_bytes w h bpp =
     [0x42, 0x4D, 0, 0, 0, 0, 0, 0, 0, 0, 0x36, 0, 0, 0, 0x28, 0, 0, 0] @ w @ h
       @ [1, 0, bpp, 0, 0, 0, 0, 0, 0, 0, 0, 0, 0, 0, 0, 0, 0, 0, 0, 0,
          0, 0, 0, 0, 0, 0, 0, 0]"

text \<open>A 2 by 2 file at 32 bits per pixel: first row 0x10.., second row 0xA0...\<close>

definition bmp32_2x2 :: "u8 list" where
  "bmp32_2x2 = header_bytes [2, 0, 0, 0] [2, 0, 0, 0] 32
     @ [0x10, 0x11, 0x12, 0x13, 0x14, 0x15, 0x16, 0x17,
        0xA0, 0xA1, 0xA2, 0xA3, 0xA4, 0xA5, 0xA6, 0xA7]"

text \<open>
  One pixel at 32 bits per pixel, stored as the format has it: blue 0x11, green
  0x22, red 0x33, alpha 0x44.
\<close>

definition bmp32_1x1 :: "u8 list" where
  "bmp32_1x1 = header_bytes [1, 0, 0, 0] [1, 0, 0, 0] 32 @ [0x11, 0x22, 0x33, 0x44]"

text \<open>The 2 by 2 file cut after its first pixel: 4 of the 16 bytes of pixel data.\<close>

definition bmp32_2x2_truncated :: "u8 list" where
  "bmp32_2x2_truncated = header_bytes [2, 0, 0, 0] [2, 0, 0, 0] 32 @ [0x10, 0x11, 0x12, 0x13]"

text \<open>A header with width 0 and height 0, and one with width and height 65536.\<close>

definition bmp32_0x0 :: "u8 list" where
  "bmp32_0x0 = header_bytes [0, 0, 0, 0] [0, 0, 0, 0] 32"

definition bmp32_65536x65536 :: "u8 list" where
  "bmp32_65536x65536 = header_bytes [0, 0, 1, 0] [0, 0, 1, 0] 32"

text \<open>
  Two files at 4 bits per pixel, 2 by 2: the header alone, and the header with the
  64 bytes of the palette and two rows of pixel data (one byte of indices and three
  of padding each).
\<close>

definition bmp4_header_only :: "u8 list" where
  "bmp4_header_only = header_bytes [2, 0, 0, 0] [2, 0, 0, 0] 4"


text \<open>
  One row of five pixels at 24 bits per pixel: 15 bytes of pixels and one byte of
  padding, which makes the 16 bytes of a row aligned to 4 bytes.
\<close>

definition bmp24_5x1 :: "u8 list" where
  "bmp24_5x1 = header_bytes [5, 0, 0, 0] [1, 0, 0, 0] 24
     @ [1, 2, 3, 4, 5, 6, 7, 8, 9, 10, 11, 12, 13, 14, 15, 0]"

text \<open>Two files that fail the header tests: magic "MB", and 16 bits per pixel.\<close>

definition bmp_bad_magic :: "u8 list" where
  "bmp_bad_magic = [0x4D, 0x42] @ drop 2 (header_bytes [1, 0, 0, 0] [1, 0, 0, 0] 32)
     @ [0x11, 0x22, 0x33, 0x44]"

definition bmp16_1x1 :: "u8 list" where
  "bmp16_1x1 = header_bytes [1, 0, 0, 0] [1, 0, 0, 0] 16 @ [0x11, 0x22, 0, 0]"

section \<open>The header reader\<close>

lemma unat_u8_less: "unat (b :: u8) < 256"
  using unsigned_less [of b, where 'a = nat] by simp

lemma OR_as_sum4:
  fixes b0 b1 b2 b3 :: u8
  shows "(push_bit 24 (ucast b3) OR push_bit 16 (ucast b2) OR push_bit 8 (ucast b1)
            OR ucast b0 :: UINT)
       = push_bit 24 (ucast b3) + (push_bit 16 (ucast b2) + (push_bit 8 (ucast b1) + ucast b0))"
proof -
  have 1: "(push_bit 8 (ucast b1) + ucast b0 :: UINT) = push_bit 8 (ucast b1) OR ucast b0"
    by (rule disjunctive_add) (auto simp: bit_simps dest: bit_imp_le_length)
  have 2: "(push_bit 16 (ucast b2) + (push_bit 8 (ucast b1) OR ucast b0) :: UINT)
        = push_bit 16 (ucast b2) OR (push_bit 8 (ucast b1) OR ucast b0)"
    by (rule disjunctive_add) (auto simp: bit_simps dest: bit_imp_le_length)
  have 3: "(push_bit 24 (ucast b3)
             + (push_bit 16 (ucast b2) OR (push_bit 8 (ucast b1) OR ucast b0)) :: UINT)
        = push_bit 24 (ucast b3) OR (push_bit 16 (ucast b2) OR (push_bit 8 (ucast b1) OR ucast b0))"
    by (rule disjunctive_add) (auto simp: bit_simps dest: bit_imp_le_length)
  show ?thesis by (simp only: 1 2 3 or.assoc)
qed

lemma unat_assemble4:
  fixes b0 b1 b2 b3 :: u8
  defines "N \<equiv> unat b0 + 256 * unat b1 + 65536 * unat b2 + 16777216 * unat b3"
  shows "unat (push_bit 24 (ucast b3) OR push_bit 16 (ucast b2) OR push_bit 8 (ucast b1)
                 OR ucast b0 :: UINT) = N"
proof -
  have eq: "(push_bit 24 (ucast b3) OR push_bit 16 (ucast b2) OR push_bit 8 (ucast b1)
               OR ucast b0 :: UINT) = word_of_nat N"
    unfolding OR_as_sum4 N_def by (simp add: push_bit_eq_mult)
  have lt: "N < 2 ^ LENGTH(32)"
    using unat_u8_less [of b0] unat_u8_less [of b1] unat_u8_less [of b2] unat_u8_less [of b3]
    by (simp add: N_def)
  have "unat (word_of_nat N :: UINT) = N"
    using lt by (simp only: unat_of_nat mod_less)
  then show ?thesis by (simp only: eq)
qed

lemma unat_assemble2:
  fixes b0 b1 :: u8
  defines "N \<equiv> unat b0 + 256 * unat b1"
  shows "unat (push_bit 8 (ucast b1) OR ucast b0 :: USHORT) = N"
proof -
  have sum: "(push_bit 8 (ucast b1) OR ucast b0 :: USHORT) = push_bit 8 (ucast b1) + ucast b0"
    by (rule disjunctive_add [symmetric]) (auto simp: bit_simps dest: bit_imp_le_length)
  have eq: "(push_bit 8 (ucast b1) OR ucast b0 :: USHORT) = word_of_nat N"
    unfolding sum N_def by (simp add: push_bit_eq_mult)
  have lt: "N < 2 ^ LENGTH(16)"
    using unat_u8_less [of b0] unat_u8_less [of b1] by (simp add: N_def)
  have "unat (word_of_nat N :: USHORT) = N"
    using lt by (simp only: unat_of_nat mod_less)
  then show ?thesis by (simp only: eq)
qed

lemma drop_unfold4:
  assumes "n + 4 \<le> length f"
  shows "drop n f = f ! n # f ! (n + 1) # f ! (n + 2) # f ! (n + 3) # drop (n + 4) f"
proof -
  have "drop n f = f ! n # drop (Suc n) f"
    using assms by (simp add: Cons_nth_drop_Suc)
  also have "drop (Suc n) f = f ! (n + 1) # drop (Suc (Suc n)) f"
    using assms by (simp add: Cons_nth_drop_Suc)
  also have "drop (Suc (Suc n)) f = f ! (n + 2) # drop (Suc (Suc (Suc n))) f"
    using assms by (simp add: Cons_nth_drop_Suc)
  also have "drop (Suc (Suc (Suc n))) f = f ! (n + 3) # drop (n + 4) f"
    using assms Cons_nth_drop_Suc [of "n + 3" f] by (simp add: eval_nat_numeral)
  finally show ?thesis .
qed

lemma take4_drop:
  assumes "n + 4 \<le> length f"
  shows "take 4 (drop n f) = [f ! n, f ! (n + 1), f ! (n + 2), f ! (n + 3)]"
  by (subst drop_unfold4 [OF assms]) simp

lemma take2_drop:
  assumes "n + 2 \<le> length f"
  shows "take 2 (drop n f) = [f ! n, f ! (n + 1)]"
proof -
  have "drop n f = f ! n # drop (Suc n) f"
    using assms by (simp add: Cons_nth_drop_Suc)
  also have "drop (Suc n) f = f ! (n + 1) # drop (n + 2) f"
    using assms Cons_nth_drop_Suc [of "n + 1" f] by simp
  finally show ?thesis by simp
qed

lemma field_at_4:
  "n + 4 \<le> length f \<Longrightarrow>
   unat (push_bit 24 (ucast (f ! (n + 3))) OR push_bit 16 (ucast (f ! (n + 2)))
           OR push_bit 8 (ucast (f ! (n + 1))) OR ucast (f ! n) :: UINT) = field_at f n 4"
  by (simp add: field_at_def take4_drop unat_assemble4)

lemma field_at_2:
  "n + 2 \<le> length f \<Longrightarrow>
   unat (push_bit 8 (ucast (f ! (n + 1))) OR ucast (f ! n) :: USHORT) = field_at f n 2"
  by (simp add: field_at_def take2_drop unat_assemble2)

lemma ReadUINT_drop:
  "n + 4 \<le> length f \<Longrightarrow> ReadUINT (drop n f) =
     Some (push_bit 24 (ucast (f ! (n + 3))) OR push_bit 16 (ucast (f ! (n + 2)))
             OR push_bit 8 (ucast (f ! (n + 1))) OR ucast (f ! n), drop (n + 4) f)"
  by (simp add: ReadUINT_def add.commute)

lemma ReadUSHORT_drop:
  "n + 2 \<le> length f \<Longrightarrow> ReadUSHORT (drop n f) =
     Some (push_bit 8 (ucast (f ! (n + 1))) OR ucast (f ! n), drop (n + 2) f)"
  by (simp add: ReadUSHORT_def add.commute)

lemma ReadUSHORT_start:
  "2 \<le> length f \<Longrightarrow> ReadUSHORT f =
     Some (push_bit 8 (ucast (f ! 1)) OR ucast (f ! 0), drop 2 f)"
  by (simp add: ReadUSHORT_def)

lemma ReadUINT_length: "ReadUINT f = Some (x, f') \<Longrightarrow> length f = length f' + 4"
  by (auto simp: ReadUINT_def split: if_splits)

lemma ReadUSHORT_length: "ReadUSHORT f = Some (x, f') \<Longrightarrow> length f = length f' + 2"
  by (auto simp: ReadUSHORT_def split: if_splits)

lemma read_fields_length:
  assumes "read_fields f = Some (h, f')"
  shows "length f = length f' + 54"
  using assms unfolding read_fields_def
  by (auto simp: bind_eq_Some_conv dest!: ReadUINT_length ReadUSHORT_length)

lemma read_fields_short: "length f < 54 \<Longrightarrow> read_fields f = None"
  using read_fields_length [of f] by (cases "read_fields f") auto

lemma read_fields_Some:
  assumes "54 \<le> length f"
  shows "read_fields f = Some
    (\<lparr>Magic = push_bit 8 (ucast (f ! 1)) OR ucast (f ! 0),
      FileSize = push_bit 24 (ucast (f ! 5)) OR push_bit 16 (ucast (f ! 4))
                   OR push_bit 8 (ucast (f ! 3)) OR ucast (f ! 2),
      Reserved1 = push_bit 8 (ucast (f ! 7)) OR ucast (f ! 6),
      Reserved2 = push_bit 8 (ucast (f ! 9)) OR ucast (f ! 8),
      DataOffset = push_bit 24 (ucast (f ! 13)) OR push_bit 16 (ucast (f ! 12))
                   OR push_bit 8 (ucast (f ! 11)) OR ucast (f ! 10),
      HeaderSize = push_bit 24 (ucast (f ! 17)) OR push_bit 16 (ucast (f ! 16))
                   OR push_bit 8 (ucast (f ! 15)) OR ucast (f ! 14),
      Width = push_bit 24 (ucast (f ! 21)) OR push_bit 16 (ucast (f ! 20))
                   OR push_bit 8 (ucast (f ! 19)) OR ucast (f ! 18),
      Height = push_bit 24 (ucast (f ! 25)) OR push_bit 16 (ucast (f ! 24))
                   OR push_bit 8 (ucast (f ! 23)) OR ucast (f ! 22),
      Planes = push_bit 8 (ucast (f ! 27)) OR ucast (f ! 26),
      BitsPerPixel = push_bit 8 (ucast (f ! 29)) OR ucast (f ! 28),
      CompressionType = push_bit 24 (ucast (f ! 33)) OR push_bit 16 (ucast (f ! 32))
                   OR push_bit 8 (ucast (f ! 31)) OR ucast (f ! 30),
      ImageDataSize = push_bit 24 (ucast (f ! 37)) OR push_bit 16 (ucast (f ! 36))
                   OR push_bit 8 (ucast (f ! 35)) OR ucast (f ! 34),
      HPixelsPerMeter = push_bit 24 (ucast (f ! 41)) OR push_bit 16 (ucast (f ! 40))
                   OR push_bit 8 (ucast (f ! 39)) OR ucast (f ! 38),
      VPixelsPerMeter = push_bit 24 (ucast (f ! 45)) OR push_bit 16 (ucast (f ! 44))
                   OR push_bit 8 (ucast (f ! 43)) OR ucast (f ! 42),
      ColorsUsed = push_bit 24 (ucast (f ! 49)) OR push_bit 16 (ucast (f ! 48))
                   OR push_bit 8 (ucast (f ! 47)) OR ucast (f ! 46),
      ColorsRequired = push_bit 24 (ucast (f ! 53)) OR push_bit 16 (ucast (f ! 52))
                   OR push_bit 8 (ucast (f ! 51)) OR ucast (f ! 50)\<rparr>,
     drop 54 f)"
  using assms by (simp add: read_fields_def ReadUINT_drop ReadUSHORT_drop ReadUSHORT_start)

lemma read_fields_layout:
  assumes "54 \<le> length f"
  shows "\<exists>h. read_fields f = Some (h, drop 54 f)
    \<and> unat (Magic h) = field_at f 0 2 \<and> unat (FileSize h) = field_at f 2 4
    \<and> unat (Reserved1 h) = field_at f 6 2 \<and> unat (Reserved2 h) = field_at f 8 2
    \<and> unat (DataOffset h) = field_at f 10 4 \<and> unat (HeaderSize h) = field_at f 14 4
    \<and> unat (Width h) = field_at f 18 4 \<and> unat (Height h) = field_at f 22 4
    \<and> unat (Planes h) = field_at f 26 2 \<and> unat (BitsPerPixel h) = field_at f 28 2
    \<and> unat (CompressionType h) = field_at f 30 4 \<and> unat (ImageDataSize h) = field_at f 34 4
    \<and> unat (HPixelsPerMeter h) = field_at f 38 4 \<and> unat (VPixelsPerMeter h) = field_at f 42 4
    \<and> unat (ColorsUsed h) = field_at f 46 4 \<and> unat (ColorsRequired h) = field_at f 50 4"
proof -
  have u2: "\<And>n. n + 2 \<le> 54 \<Longrightarrow> n + 2 \<le> length f"
    and u4: "\<And>n. n + 4 \<le> 54 \<Longrightarrow> n + 4 \<le> length f"
    using assms by simp_all
  show ?thesis
    unfolding read_fields_Some [OF assms]
    using field_at_2 [of 0 f] field_at_4 [of 2 f] field_at_2 [of 6 f] field_at_2 [of 8 f]
      field_at_4 [of 10 f] field_at_4 [of 14 f] field_at_4 [of 18 f] field_at_4 [of 22 f]
      field_at_2 [of 26 f] field_at_2 [of 28 f] field_at_4 [of 30 f] field_at_4 [of 34 f]
      field_at_4 [of 38 f] field_at_4 [of 42 f] field_at_4 [of 46 f] field_at_4 [of 50 f]
      assms
    by simp
qed

text \<open>
  C5. Whatever the bytes are, \<^verbatim>\<open>ReadHeader\<close> succeeds exactly when at least 54
  bytes are there, and fails with \<^verbatim>\<open>BMP_IO_ERROR\<close> otherwise. On success it has
  consumed exactly 54 bytes, and every field of the header it returns is the
  little-endian value of the bytes at the field's offset in the file layout: no
  field value is tested.
\<close>

theorem ReadHeader_consumes_54_bytes_little_endian:
  "(length f < 54 \<longrightarrow> ReadHeader f = Inl BMP_IO_ERROR)
   \<and> (54 \<le> length f \<longrightarrow>
       (\<exists>h. ReadHeader f = Inr (h, drop 54 f)
          \<and> unat (Magic h) = field_at f 0 2 \<and> unat (FileSize h) = field_at f 2 4
          \<and> unat (Reserved1 h) = field_at f 6 2 \<and> unat (Reserved2 h) = field_at f 8 2
          \<and> unat (DataOffset h) = field_at f 10 4 \<and> unat (HeaderSize h) = field_at f 14 4
          \<and> unat (Width h) = field_at f 18 4 \<and> unat (Height h) = field_at f 22 4
          \<and> unat (Planes h) = field_at f 26 2 \<and> unat (BitsPerPixel h) = field_at f 28 2
          \<and> unat (CompressionType h) = field_at f 30 4
          \<and> unat (ImageDataSize h) = field_at f 34 4
          \<and> unat (HPixelsPerMeter h) = field_at f 38 4
          \<and> unat (VPixelsPerMeter h) = field_at f 42 4
          \<and> unat (ColorsUsed h) = field_at f 46 4
          \<and> unat (ColorsRequired h) = field_at f 50 4))"
proof (intro conjI impI)
  assume "length f < 54"
  then show "ReadHeader f = Inl BMP_IO_ERROR"
    by (simp add: ReadHeader_def read_fields_short)
next
  assume "54 \<le> length f"
  from read_fields_layout [OF this] show "\<exists>h. ReadHeader f = Inr (h, drop 54 f)
          \<and> unat (Magic h) = field_at f 0 2 \<and> unat (FileSize h) = field_at f 2 4
          \<and> unat (Reserved1 h) = field_at f 6 2 \<and> unat (Reserved2 h) = field_at f 8 2
          \<and> unat (DataOffset h) = field_at f 10 4 \<and> unat (HeaderSize h) = field_at f 14 4
          \<and> unat (Width h) = field_at f 18 4 \<and> unat (Height h) = field_at f 22 4
          \<and> unat (Planes h) = field_at f 26 2 \<and> unat (BitsPerPixel h) = field_at f 28 2
          \<and> unat (CompressionType h) = field_at f 30 4
          \<and> unat (ImageDataSize h) = field_at f 34 4
          \<and> unat (HPixelsPerMeter h) = field_at f 38 4
          \<and> unat (VPixelsPerMeter h) = field_at f 42 4
          \<and> unat (ColorsUsed h) = field_at f 46 4
          \<and> unat (ColorsRequired h) = field_at f 50 4"
    unfolding ReadHeader_def by (elim exE conjE) simp
qed

theorem ReadHeader_consumes_54_bytes_little_endian_witness:
  "ReadHeader [0x42, 0x4D, 0x46] = Inl BMP_IO_ERROR
   \<and> (\<exists>h. ReadHeader bmp32_2x2 = Inr (h, drop 54 bmp32_2x2)
        \<and> unat (Magic h) = 0x4D42 \<and> unat (HeaderSize h) = 40
        \<and> unat (Width h) = 2 \<and> unat (Height h) = 2 \<and> unat (BitsPerPixel h) = 32)"
  using ReadHeader_consumes_54_bytes_little_endian [of "[0x42, 0x4D, 0x46]"]
    ReadHeader_consumes_54_bytes_little_endian [of bmp32_2x2]
  by (simp add: bmp32_2x2_def header_bytes_def field_at_def) blast


section \<open>The stages of the decoder\<close>

lemmas stage_defs = validate_def palettesize_of_def read_palette_def decode_pixels_def
  fread_into_def send_packet_def BMP_GetWidth_def BMP_GetHeight_def BMP_GetDepth_def

lemmas reader_defs = ReadHeader_def read_fields_def ReadUINT_def ReadUSHORT_def

lemmas input_defs = configured_def env_with_def header_bytes_def

text \<open>A call that finds a packet whose header reads and passes both tests.\<close>

lemma process_valid_header:
  assumes "ipid_packets st = data # rest" and "bmp_alloc_ok e"
    and "ReadHeader data = Inr (h, f)" and "validate h = None"
  shows "QDBMP_process e st =
    (case read_palette e (palettesize_of e h) f of
       Inl (err, code) \<Rightarrow> (err, st\<lparr>BMP_LAST_ERROR_CODE := code\<rparr>)
     | Inr (palette, f1) \<Rightarrow> (case decode_pixels h f1 st of (err, st1, f2) \<Rightarrow> (err, st1)))"
  using assms by (simp add: QDBMP_process_def)

text \<open>A call that finds a packet whose header reads and fails one of the tests.\<close>

lemma process_invalid_header:
  assumes "ipid_packets st = data # rest" and "bmp_alloc_ok e"
    and "ReadHeader data = Inr (h, f)" and "validate h = Some (err, code)"
  shows "QDBMP_process e st = (err, st\<lparr>BMP_LAST_ERROR_CODE := code\<rparr>)"
  using assms by (simp add: QDBMP_process_def)

lemma decode_pixels_sent:
  "decode_pixels h f st = (err, st1, f2) \<Longrightarrow> err \<noteq> GF_OK \<Longrightarrow> opid_sent st1 = opid_sent st"
  by (auto simp: decode_pixels_def Let_def send_packet_def split: if_splits prod.splits)

text \<open>Every return other than \<^verbatim>\<open>GF_OK\<close> leaves the packets sent as they were.\<close>

lemma failure_sends_nothing:
  assumes "fst (QDBMP_process e st) \<noteq> GF_OK"
  shows "opid_sent (snd (QDBMP_process e st)) = opid_sent st"
  using assms
  by (auto simp: QDBMP_process_def split: list.splits if_splits sum.splits option.splits prod.splits
      dest: decode_pixels_sent)

text \<open>
  At 32 bits per pixel, with the palette stage reading nothing, the packet sent
  holds the bytes of the file after the header in the order of the file, and what
  the file does not supply is left unwritten.
\<close>

lemma decode_32bpp_verbatim:
  assumes "ipid_packets st = data # rest" and "bmp_alloc_ok e"
    and "ReadHeader data = Inr (h, f)" and "validate h = None"
    and "BitsPerPixel h = 32" and "uninit_palettesize e = 0"
  shows "fst (QDBMP_process e st) = GF_OK"
    and "opid_sent (snd (QDBMP_process e st)) = opid_sent st @
      [map Some (take (unat (Width h * Height h * 4)) f)
         @ replicate (unat (Width h * Height h * 4) - length f) None]"
  using assms
  by (auto simp: process_valid_header [OF assms(1-4)] palettesize_of_def read_palette_def
      decode_pixels_def fread_into_def send_packet_def BMP_GetWidth_def BMP_GetHeight_def
      BMP_GetDepth_def min_def Let_def)

text \<open>
  The palette stage at the indexed depths: 1024 bytes at depth 8 and 64 at depth 4
  are taken from the file where the header ended, and a file with fewer bytes left
  is rejected. At the other depths it reads nothing if the uninitialised size
  happens to be 0.
\<close>

lemma palette_stage_indexed:
  assumes "BitsPerPixel h = 8 \<or> BitsPerPixel h = 4" and "palette_alloc_ok e"
  shows "read_palette e (palettesize_of e h) f =
    (let n = (if BitsPerPixel h = 8 then 1024 else 64)
     in if length f < n then Inl (GF_CORRUPTED_DATA, BMP_FILE_INVALID)
        else Inr (Some (take n f), drop n f))"
  using assms by (auto simp: read_palette_def palettesize_of_def Let_def)

lemma palette_stage_other_depths:
  assumes "BitsPerPixel h \<noteq> 8" and "BitsPerPixel h \<noteq> 4" and "uninit_palettesize e = 0"
  shows "read_palette e (palettesize_of e h) f = Inr (None, f)"
  using assms by (simp add: read_palette_def palettesize_of_def)

text \<open>The size of the packet is the product of the three numbers, cut to 32 bits.\<close>

lemma unat_size_wraps:
  "unat (w * h * 4 :: UINT) = (unat w * unat h * 4) mod 2 ^ 32"
proof -
  have "unat (w * h * 4) = (unat (w * h) * unat (4 :: UINT)) mod 2 ^ 32"
    by (simp add: unat_word_ariths)
  also have "\<dots> = ((unat w * unat h) mod 2 ^ 32 * 4) mod 2 ^ 32"
    by (simp add: unat_word_ariths)
  also have "\<dots> = (unat w * unat h * 4) mod 2 ^ 32"
    by (simp add: mod_mult_left_eq)
  finally show ?thesis .
qed

lemma length_fread_into:
  "length output = n \<Longrightarrow> length (fst (fread_into output n f)) = n"
  by (simp add: fread_into_def min_def)

text \<open>
  Two calls that find the same packet return the same code and send the same
  packet, whatever else the two states hold.
\<close>

lemma decode_pixels_two_states:
  "fst (decode_pixels h f s1) = fst (decode_pixels h f s2)
   \<and> drop (length (opid_sent s1)) (opid_sent (fst (snd (decode_pixels h f s1))))
     = drop (length (opid_sent s2)) (opid_sent (fst (snd (decode_pixels h f s2))))"
  by (simp add: decode_pixels_def Let_def send_packet_def split: prod.splits)

lemma process_two_states:
  assumes "ipid_packets s1 = data # r1" and "ipid_packets s2 = data # r2"
  shows "fst (QDBMP_process e s1) = fst (QDBMP_process e s2)
    \<and> drop (length (opid_sent s1)) (opid_sent (snd (QDBMP_process e s1)))
      = drop (length (opid_sent s2)) (opid_sent (snd (QDBMP_process e s2)))"
  using assms
  by (simp add: QDBMP_process_def case_prod_beta decode_pixels_two_states [of _ _ s1 s2]
      split: sum.splits option.splits)

text \<open>
  What a call leaves in \<^verbatim>\<open>BMP_LAST_ERROR_CODE\<close>: the assignments of lines 278,
  292, 304 and 312, and the old value on every other path.
\<close>

lemma ReadHeader_short: "length f < 54 \<Longrightarrow> ReadHeader f = Inl BMP_IO_ERROR"
  by (simp add: ReadHeader_def read_fields_short)

lemma ReadHeader_long:
  "54 \<le> length f \<Longrightarrow> ReadHeader f = Inr (fst (projr (ReadHeader f)), drop 54 f)"
  by (simp add: ReadHeader_def read_fields_Some)

lemma decode_pixels_last_error:
  "BMP_LAST_ERROR_CODE (fst (snd (decode_pixels h f st))) = BMP_LAST_ERROR_CODE st"
  by (simp add: decode_pixels_def send_packet_def Let_def split: prod.splits)

lemma last_error_after_call:
  "BMP_LAST_ERROR_CODE (snd (QDBMP_process e st)) =
     (case ipid_packets st of
        [] \<Rightarrow> BMP_LAST_ERROR_CODE st
      | data # _ \<Rightarrow>
          if \<not> bmp_alloc_ok e then BMP_LAST_ERROR_CODE st
          else if length data < 54 then BMP_FILE_INVALID
          else if Magic (fst (projr (ReadHeader data))) \<noteq> 0x4D42 then BMP_FILE_INVALID
          else if BitsPerPixel (fst (projr (ReadHeader data))) \<notin> {32, 24, 8, 4}
                  \<or> CompressionType (fst (projr (ReadHeader data))) \<noteq> 0
                  \<or> HeaderSize (fst (projr (ReadHeader data))) \<noteq> 40
               then BMP_FILE_NOT_SUPPORTED
          else if palettesize_of e (fst (projr (ReadHeader data))) = 0
               then BMP_LAST_ERROR_CODE st
          else if \<not> palette_alloc_ok e then BMP_OUT_OF_MEMORY
          else if length data - 54 < unat (palettesize_of e (fst (projr (ReadHeader data))))
               then BMP_FILE_INVALID
          else BMP_LAST_ERROR_CODE st)"
proof (cases "ipid_packets st")
  case Nil
  then show ?thesis by (simp add: QDBMP_process_def)
next
  case (Cons data rest)
  show ?thesis
  proof (cases "length data < 54")
    case True
    then show ?thesis
      using Cons by (simp add: QDBMP_process_def ReadHeader_short)
  next
    case False
    then have long: "54 \<le> length data" by simp
    define h where "h = fst (projr (ReadHeader data))"
    have rh: "ReadHeader data = Inr (h, drop 54 data)"
      unfolding h_def by (rule ReadHeader_long [OF long])
    show ?thesis
      unfolding h_def [symmetric]
      using Cons long
      by (auto simp: QDBMP_process_def rh validate_def read_palette_def case_prod_beta
          decode_pixels_last_error word_greater_zero_iff)
  qed
qed

section \<open>Channel order, row order and truncated data at 32 bits per pixel\<close>

text \<open>
  C1. The claim is that a source pixel stored as blue, green, red, alpha leaves the
  decoder as red, green, blue, alpha. The code does not do that: for the file of one
  pixel with blue 0x11, green 0x22, red 0x33 and alpha 0x44, the call returns
  \<^verbatim>\<open>GF_OK\<close> and sends the four bytes in the order of the file, blue first, in a
  packet whose pixel format it has set to \<^verbatim>\<open>GF_PIXEL_RGBX\<close>; the packet is not
  the red-first one.
\<close>

theorem depth32_copies_source_bytes_in_file_order:
  "fst (QDBMP_process (env_with 0) (configured [bmp32_1x1])) = GF_OK
   \<and> opid_sent (snd (QDBMP_process (env_with 0) (configured [bmp32_1x1])))
       = [[Some 0x11, Some 0x22, Some 0x33, Some 0x44]]
   \<and> opid_sent (snd (QDBMP_process (env_with 0) (configured [bmp32_1x1])))
       \<noteq> [[Some 0x33, Some 0x22, Some 0x11, Some 0x44]]
   \<and> opid_props (snd (QDBMP_process (env_with 0) (configured [bmp32_1x1]))) GF_PROP_PID_PIXFMT
       = Some (PROP_UINT_PIXEL GF_PIXEL_RGBX)"
  by (simp add: QDBMP_process_def reader_defs stage_defs input_defs bmp32_1x1_def)

text \<open>
  C2. The claim is that output row \<open>y\<close> is read from source row \<open>height - 1 - y\<close>.
  The code does not do that: for the 2 by 2 file whose first stored row is
  0x10..0x17 and whose second stored row is 0xA0..0xA7, the packet sent is the
  pixel data as stored, so its top row is the first stored row and its bottom row
  the last stored row.
\<close>

theorem depth32_keeps_source_row_order:
  "fst (QDBMP_process (env_with 0) (configured [bmp32_2x2])) = GF_OK
   \<and> opid_sent (snd (QDBMP_process (env_with 0) (configured [bmp32_2x2])))
       = [map Some (drop 54 bmp32_2x2)]
   \<and> take 8 (drop 54 bmp32_2x2) = [0x10, 0x11, 0x12, 0x13, 0x14, 0x15, 0x16, 0x17]
   \<and> take 8 (hd (opid_sent (snd (QDBMP_process (env_with 0) (configured [bmp32_2x2])))))
       = map Some [0x10, 0x11, 0x12, 0x13, 0x14, 0x15, 0x16, 0x17]
   \<and> drop 8 (hd (opid_sent (snd (QDBMP_process (env_with 0) (configured [bmp32_2x2])))))
       = map Some [0xA0, 0xA1, 0xA2, 0xA3, 0xA4, 0xA5, 0xA6, 0xA7]"
  by (simp add: QDBMP_process_def reader_defs stage_defs input_defs bmp32_2x2_def)

text \<open>
  C3. The claim is that truncated pixel data makes the call fail, and that a
  failing call hands out no buffer. The code does not fail: for the 2 by 2 file
  that holds 4 of its 16 bytes of pixel data, the call returns \<^verbatim>\<open>GF_OK\<close> and
  sends a packet of 16 bytes of which only the first 4 were written.
\<close>

theorem truncated_pixel_data_is_sent_partly_written:
  "fst (QDBMP_process (env_with 0) (configured [bmp32_2x2_truncated])) = GF_OK
   \<and> opid_sent (snd (QDBMP_process (env_with 0) (configured [bmp32_2x2_truncated])))
       = [[Some 0x10, Some 0x11, Some 0x12, Some 0x13] @ replicate 12 None]"
  by (simp add: QDBMP_process_def reader_defs stage_defs input_defs bmp32_2x2_truncated_def)

section \<open>The tests on the header\<close>

text \<open>
  C4, as the code has it. A header passes exactly when its magic is \<^verbatim>\<open>0x4D42\<close>
  (the bytes 0x42 0x4D), its header size 40, its compression type 0 and its depth
  one of 32, 24, 8, 4. The magic is tested first: a wrong magic gives
  \<^verbatim>\<open>GF_CORRUPTED_DATA\<close> with last error \<^verbatim>\<open>BMP_FILE_INVALID\<close> whatever the other
  fields are. With the right magic, a violation of any of the three other rules
  gives the one result \<^verbatim>\<open>GF_NOT_SUPPORTED\<close> with \<^verbatim>\<open>BMP_FILE_NOT_SUPPORTED\<close>,
  which does not tell the rules apart. Width and height play no part.
\<close>

theorem validate_rules:
  "(validate h = None \<longleftrightarrow>
      Magic h = 0x4D42 \<and> HeaderSize h = 40 \<and> CompressionType h = 0
      \<and> BitsPerPixel h \<in> {32, 24, 8, 4})
   \<and> (Magic h \<noteq> 0x4D42 \<longrightarrow> validate h = Some (GF_CORRUPTED_DATA, BMP_FILE_INVALID))
   \<and> (Magic h = 0x4D42
        \<and> (HeaderSize h \<noteq> 40 \<or> CompressionType h \<noteq> 0 \<or> BitsPerPixel h \<notin> {32, 24, 8, 4})
       \<longrightarrow> validate h = Some (GF_NOT_SUPPORTED, BMP_FILE_NOT_SUPPORTED))
   \<and> validate (h\<lparr>Width := w, Height := ht\<rparr>) = validate h"
  by (auto simp: validate_def)

text \<open>
  The three cases on files: a good header, the magic "MB", and 16 bits per pixel.
\<close>

theorem validate_rules_witness:
  "ReadUSHORT [0x42, 0x4D] = Some (0x4D42, [])
   \<and> validate (fst (projr (ReadHeader bmp32_2x2))) = None
   \<and> validate (fst (projr (ReadHeader bmp_bad_magic))) = Some (GF_CORRUPTED_DATA, BMP_FILE_INVALID)
   \<and> validate (fst (projr (ReadHeader bmp16_1x1))) = Some (GF_NOT_SUPPORTED, BMP_FILE_NOT_SUPPORTED)"
  using validate_rules [of "fst (projr (ReadHeader bmp32_2x2))"]
    validate_rules [of "fst (projr (ReadHeader bmp_bad_magic))"]
    validate_rules [of "fst (projr (ReadHeader bmp16_1x1))"]
  by (simp add: reader_defs header_bytes_def bmp32_2x2_def bmp_bad_magic_def bmp16_1x1_def)

text \<open>
  C4 as stated fails: a header with width 0 and height 0 passes the tests, and the
  call goes on to return \<^verbatim>\<open>GF_OK\<close> and to send a packet of no bytes.
\<close>

theorem validate_accepts_zero_dimensions:
  "Width (fst (projr (ReadHeader bmp32_0x0))) = 0
   \<and> Height (fst (projr (ReadHeader bmp32_0x0))) = 0
   \<and> validate (fst (projr (ReadHeader bmp32_0x0))) = None
   \<and> fst (QDBMP_process (env_with 0) (configured [bmp32_0x0])) = GF_OK
   \<and> opid_sent (snd (QDBMP_process (env_with 0) (configured [bmp32_0x0]))) = [[]]"
  by (simp add: QDBMP_process_def reader_defs stage_defs input_defs bmp32_0x0_def)

section \<open>The palette\<close>

text \<open>
  C6. The claim is that at 32 and 24 bits per pixel nothing is read for the palette.
  In the code the number of bytes read is then the value of an uninitialised
  variable. Where that value is 4, the palette stage takes the four bytes of the
  one pixel of the file as the palette, the pixel read finds the file at its end,
  and the packet is sent with none of its bytes written; where it is 1024, the
  same well-formed file is rejected with \<^verbatim>\<open>GF_CORRUPTED_DATA\<close>.
\<close>

theorem depth32_palette_read_follows_uninitialised_size:
  "read_palette (env_with 4)
      (palettesize_of (env_with 4) (fst (projr (ReadHeader bmp32_1x1))))
      (snd (projr (ReadHeader bmp32_1x1)))
     = Inr (Some [0x11, 0x22, 0x33, 0x44], [])
   \<and> fst (QDBMP_process (env_with 4) (configured [bmp32_1x1])) = GF_OK
   \<and> opid_sent (snd (QDBMP_process (env_with 4) (configured [bmp32_1x1]))) = [replicate 4 None]
   \<and> fst (QDBMP_process (env_with 1024) (configured [bmp32_1x1])) = GF_CORRUPTED_DATA"
  by (simp add: QDBMP_process_def reader_defs stage_defs input_defs bmp32_1x1_def)

section \<open>Depths without a decoder\<close>




text \<open>
  C8. The claim is that a row of five pixels at 24 bits per pixel has a source
  stride of 16 bytes. The code decodes no such file: for one row of five pixels in
  its 16 bytes, the call returns \<^verbatim>\<open>GF_NOT_SUPPORTED\<close> and sends nothing. The
  statements after that \<^verbatim>\<open>return\<close> would take 8 pixels, 24 bytes, for the row.
\<close>

theorem depth24_is_rejected_before_any_stride:
  "fst (QDBMP_process (env_with 0) (configured [bmp24_5x1])) = GF_NOT_SUPPORTED
   \<and> opid_sent (snd (QDBMP_process (env_with 0) (configured [bmp24_5x1]))) = []
   \<and> length (drop 54 bmp24_5x1) = 16
   \<and> case24_stride (fst (projr (ReadHeader bmp24_5x1))) * 3 = 24"
  by (simp add: QDBMP_process_def reader_defs stage_defs input_defs bmp24_5x1_def case24_stride_def)

section \<open>The size of the output packet\<close>

text \<open>
  C9, as the code has it. There is no test of the size: whenever the header passes
  the tests and the palette stage succeeds, a packet of
  \<open>(width * height * 4) mod 2 ^ 32\<close> bytes is allocated. At depths 24 and 8 the
  call then returns \<^verbatim>\<open>GF_NOT_SUPPORTED\<close> and the packet stays unsent; at every
  other depth the call returns \<^verbatim>\<open>GF_OK\<close> and that packet is sent.
\<close>

theorem packet_size_is_product_mod_2_32:
  assumes "ipid_packets st = data # rest" and "bmp_alloc_ok e"
    and "ReadHeader data = Inr (h, f)" and "validate h = None"
    and "read_palette e (palettesize_of e h) f = Inr (palette, f1)"
  shows "(BitsPerPixel h = 24 \<or> BitsPerPixel h = 8 \<longrightarrow>
            fst (QDBMP_process e st) = GF_NOT_SUPPORTED
            \<and> (\<exists>buf. opid_unsent (snd (QDBMP_process e st)) = opid_unsent st @ [buf]
                  \<and> length buf = (unat (Width h) * unat (Height h) * 4) mod 2 ^ 32))
    \<and> (BitsPerPixel h \<noteq> 24 \<and> BitsPerPixel h \<noteq> 8 \<longrightarrow>
            fst (QDBMP_process e st) = GF_OK
            \<and> (\<exists>buf. opid_sent (snd (QDBMP_process e st)) = opid_sent st @ [buf]
                  \<and> length buf = (unat (Width h) * unat (Height h) * 4) mod 2 ^ 32))"
  using assms(5) length_fread_into [of "replicate (unat (Width h * Height h * 4)) None"
      "unat (Width h * Height h * 4)" f1]
  by (auto simp: process_valid_header [OF assms(1-4)] decode_pixels_def send_packet_def
      BMP_GetWidth_def BMP_GetHeight_def BMP_GetDepth_def Let_def unat_size_wraps
      split: prod.splits)

text \<open>One file at depth 24 (5 by 1, 20 bytes) and one at depth 32 (2 by 2, 16 bytes).\<close>

theorem packet_size_is_product_mod_2_32_witness:
  "fst (QDBMP_process (env_with 0) (configured [bmp24_5x1])) = GF_NOT_SUPPORTED
   \<and> (\<exists>buf. opid_unsent (snd (QDBMP_process (env_with 0) (configured [bmp24_5x1]))) = [buf]
         \<and> length buf = 20)
   \<and> fst (QDBMP_process (env_with 0) (configured [bmp32_2x2])) = GF_OK
   \<and> (\<exists>buf. opid_sent (snd (QDBMP_process (env_with 0) (configured [bmp32_2x2]))) = [buf]
         \<and> length buf = 16)"
  using packet_size_is_product_mod_2_32 [of "configured [bmp24_5x1]" bmp24_5x1 "[]" "env_with 0"
      "fst (projr (ReadHeader bmp24_5x1))" "snd (projr (ReadHeader bmp24_5x1))" None
      "snd (projr (ReadHeader bmp24_5x1))"]
    packet_size_is_product_mod_2_32 [of "configured [bmp32_2x2]" bmp32_2x2 "[]" "env_with 0"
      "fst (projr (ReadHeader bmp32_2x2))" "snd (projr (ReadHeader bmp32_2x2))" None
      "snd (projr (ReadHeader bmp32_2x2))"]
  by (simp add: reader_defs validate_def palettesize_of_def read_palette_def input_defs
      bmp24_5x1_def bmp32_2x2_def)

text \<open>
  C9 as stated fails: for width 65536 and height 65536 the product
  \<open>width * height * 4\<close> is \<open>2 ^ 34\<close>; the call reports no error, returns
  \<^verbatim>\<open>GF_OK\<close> and sends a packet of no bytes.
\<close>

theorem oversized_image_gets_empty_packet:
  "unat (Width (fst (projr (ReadHeader bmp32_65536x65536)))) = 65536
   \<and> unat (Height (fst (projr (ReadHeader bmp32_65536x65536)))) = 65536
   \<and> fst (QDBMP_process (env_with 0) (configured [bmp32_65536x65536])) = GF_OK
   \<and> opid_sent (snd (QDBMP_process (env_with 0) (configured [bmp32_65536x65536]))) = [[]]"
  by (simp add: QDBMP_process_def reader_defs stage_defs input_defs bmp32_65536x65536_def)

section \<open>The last error code\<close>

text \<open>
  C10, as the code has it. With the same environment (the same value of the
  uninitialised \<^verbatim>\<open>palettesize\<close> and the same outcomes of the allocations), two
  calls that find the same packet return the same code and send the same packet,
  bytes that were never written counting as equal, whatever else the two states
  hold. In particular the value of \<^verbatim>\<open>BMP_LAST_ERROR_CODE\<close> before a call changes
  neither the code returned nor anything else of the state after it: the variable
  is written and never read. The last conjunct says when it is written. A call
  whose packet has fewer than 54 bytes or a wrong magic leaves
  \<^verbatim>\<open>BMP_FILE_INVALID\<close>; one whose header fails the depth, compression or header
  size rule leaves \<^verbatim>\<open>BMP_FILE_NOT_SUPPORTED\<close>; one whose palette cannot be
  allocated leaves \<^verbatim>\<open>BMP_OUT_OF_MEMORY\<close>, and one whose palette is cut short
  leaves \<^verbatim>\<open>BMP_FILE_INVALID\<close>. Every other call leaves the variable as it was:
  the calls that succeed, the call without a packet, and the failing returns of
  line 271 (\<^verbatim>\<open>GF_OUT_OF_MEM\<close>) and of lines 333 and 349 (\<^verbatim>\<open>GF_NOT_SUPPORTED\<close>
  at depths 24 and 8).
\<close>

theorem decode_result_independent_of_last_error:
  "(ipid_packets s1 = data # r1 \<and> ipid_packets s2 = data # r2 \<longrightarrow>
      fst (QDBMP_process e s1) = fst (QDBMP_process e s2)
      \<and> drop (length (opid_sent s1)) (opid_sent (snd (QDBMP_process e s1)))
        = drop (length (opid_sent s2)) (opid_sent (snd (QDBMP_process e s2))))
   \<and> fst (QDBMP_process e (st\<lparr>BMP_LAST_ERROR_CODE := c\<rparr>)) = fst (QDBMP_process e st)
   \<and> (snd (QDBMP_process e (st\<lparr>BMP_LAST_ERROR_CODE := c\<rparr>)))\<lparr>BMP_LAST_ERROR_CODE := x\<rparr>
       = (snd (QDBMP_process e st))\<lparr>BMP_LAST_ERROR_CODE := x\<rparr>
   \<and> BMP_LAST_ERROR_CODE (snd (QDBMP_process e st))
       \<in> {BMP_LAST_ERROR_CODE st, BMP_FILE_INVALID, BMP_FILE_NOT_SUPPORTED, BMP_OUT_OF_MEMORY}
   \<and> BMP_LAST_ERROR_CODE (snd (QDBMP_process e st)) =
       (case ipid_packets st of
          [] \<Rightarrow> BMP_LAST_ERROR_CODE st
        | pck # _ \<Rightarrow>
            if \<not> bmp_alloc_ok e then BMP_LAST_ERROR_CODE st
            else if length pck < 54 then BMP_FILE_INVALID
            else if Magic (fst (projr (ReadHeader pck))) \<noteq> 0x4D42 then BMP_FILE_INVALID
            else if BitsPerPixel (fst (projr (ReadHeader pck))) \<notin> {32, 24, 8, 4}
                    \<or> CompressionType (fst (projr (ReadHeader pck))) \<noteq> 0
                    \<or> HeaderSize (fst (projr (ReadHeader pck))) \<noteq> 40
                 then BMP_FILE_NOT_SUPPORTED
            else if palettesize_of e (fst (projr (ReadHeader pck))) = 0
                 then BMP_LAST_ERROR_CODE st
            else if \<not> palette_alloc_ok e then BMP_OUT_OF_MEMORY
            else if length pck - 54 < unat (palettesize_of e (fst (projr (ReadHeader pck))))
                 then BMP_FILE_INVALID
            else BMP_LAST_ERROR_CODE st)"
proof (intro conjI impI)
  assume "ipid_packets s1 = data # r1 \<and> ipid_packets s2 = data # r2"
  then have p: "ipid_packets s1 = data # r1" "ipid_packets s2 = data # r2"
    by simp_all
  from process_two_states [OF p]
  show "fst (QDBMP_process e s1) = fst (QDBMP_process e s2)"
    and "drop (length (opid_sent s1)) (opid_sent (snd (QDBMP_process e s1)))
        = drop (length (opid_sent s2)) (opid_sent (snd (QDBMP_process e s2)))"
    by simp_all
next
  show "fst (QDBMP_process e (st\<lparr>BMP_LAST_ERROR_CODE := c\<rparr>)) = fst (QDBMP_process e st)"
    by (auto simp: QDBMP_process_def validate_def read_palette_def decode_pixels_def
        send_packet_def fread_into_def Let_def
        split: list.splits sum.splits option.splits prod.splits if_splits)
next
  show "(snd (QDBMP_process e (st\<lparr>BMP_LAST_ERROR_CODE := c\<rparr>)))\<lparr>BMP_LAST_ERROR_CODE := x\<rparr>
       = (snd (QDBMP_process e st))\<lparr>BMP_LAST_ERROR_CODE := x\<rparr>"
    by (auto simp: QDBMP_process_def validate_def read_palette_def decode_pixels_def
        send_packet_def fread_into_def Let_def
        split: list.splits sum.splits option.splits prod.splits if_splits)
next
  show "BMP_LAST_ERROR_CODE (snd (QDBMP_process e st))
       \<in> {BMP_LAST_ERROR_CODE st, BMP_FILE_INVALID, BMP_FILE_NOT_SUPPORTED, BMP_OUT_OF_MEMORY}"
    by (auto simp: QDBMP_process_def validate_def read_palette_def decode_pixels_def
        send_packet_def fread_into_def Let_def
        split: list.splits sum.splits option.splits prod.splits if_splits)
next
  show "BMP_LAST_ERROR_CODE (snd (QDBMP_process e st)) =
       (case ipid_packets st of
          [] \<Rightarrow> BMP_LAST_ERROR_CODE st
        | pck # _ \<Rightarrow>
            if \<not> bmp_alloc_ok e then BMP_LAST_ERROR_CODE st
            else if length pck < 54 then BMP_FILE_INVALID
            else if Magic (fst (projr (ReadHeader pck))) \<noteq> 0x4D42 then BMP_FILE_INVALID
            else if BitsPerPixel (fst (projr (ReadHeader pck))) \<notin> {32, 24, 8, 4}
                    \<or> CompressionType (fst (projr (ReadHeader pck))) \<noteq> 0
                    \<or> HeaderSize (fst (projr (ReadHeader pck))) \<noteq> 40
                 then BMP_FILE_NOT_SUPPORTED
            else if palettesize_of e (fst (projr (ReadHeader pck))) = 0
                 then BMP_LAST_ERROR_CODE st
            else if \<not> palette_alloc_ok e then BMP_OUT_OF_MEMORY
            else if length pck - 54 < unat (palettesize_of e (fst (projr (ReadHeader pck))))
                 then BMP_FILE_INVALID
            else BMP_LAST_ERROR_CODE st)"
    by (rule last_error_after_call)
qed

text \<open>
  The 2 by 2 file found by two states that differ in the packets behind it, the
  packets sent before and the last error; then one file for each way the variable
  is written or kept: 16 bits per pixel, a palette cut short, a header cut short,
  depth 24, and a failed allocation.
\<close>

theorem decode_result_independent_of_last_error_witness:
  "fst (QDBMP_process (env_with 0)
          ((configured [bmp32_2x2, bmp32_1x1])\<lparr>BMP_LAST_ERROR_CODE := BMP_IO_ERROR,
                                                opid_sent := [[]]\<rparr>))
     = fst (QDBMP_process (env_with 0) (configured [bmp32_2x2]))
   \<and> drop 1 (opid_sent (snd (QDBMP_process (env_with 0)
          ((configured [bmp32_2x2, bmp32_1x1])\<lparr>BMP_LAST_ERROR_CODE := BMP_IO_ERROR,
                                                opid_sent := [[]]\<rparr>))))
     = opid_sent (snd (QDBMP_process (env_with 0) (configured [bmp32_2x2])))
   \<and> BMP_LAST_ERROR_CODE (snd (QDBMP_process (env_with 0) (configured [bmp32_2x2]))) = BMP_OK
   \<and> BMP_LAST_ERROR_CODE (snd (QDBMP_process (env_with 0) (configured [bmp16_1x1])))
       = BMP_FILE_NOT_SUPPORTED
   \<and> BMP_LAST_ERROR_CODE (snd (QDBMP_process (env_with 0) (configured [bmp4_header_only])))
       = BMP_FILE_INVALID
   \<and> BMP_LAST_ERROR_CODE (snd (QDBMP_process (env_with 0) (configured [[0x42, 0x4D, 0x46]])))
       = BMP_FILE_INVALID
   \<and> fst (QDBMP_process (env_with 0) (configured [bmp24_5x1])) = GF_NOT_SUPPORTED
   \<and> BMP_LAST_ERROR_CODE (snd (QDBMP_process (env_with 0) (configured [bmp24_5x1]))) = BMP_OK
   \<and> fst (QDBMP_process ((env_with 0)\<lparr>bmp_alloc_ok := False\<rparr>) (configured [bmp32_2x2]))
       = GF_OUT_OF_MEM
   \<and> BMP_LAST_ERROR_CODE
        (snd (QDBMP_process ((env_with 0)\<lparr>bmp_alloc_ok := False\<rparr>) (configured [bmp32_2x2])))
       = BMP_OK"
proof -
  have two: "fst (QDBMP_process (env_with 0)
          ((configured [bmp32_2x2, bmp32_1x1])\<lparr>BMP_LAST_ERROR_CODE := BMP_IO_ERROR,
                                                opid_sent := [[]]\<rparr>))
     = fst (QDBMP_process (env_with 0) (configured [bmp32_2x2]))
   \<and> drop 1 (opid_sent (snd (QDBMP_process (env_with 0)
          ((configured [bmp32_2x2, bmp32_1x1])\<lparr>BMP_LAST_ERROR_CODE := BMP_IO_ERROR,
                                                opid_sent := [[]]\<rparr>))))
     = opid_sent (snd (QDBMP_process (env_with 0) (configured [bmp32_2x2])))"
    using decode_result_independent_of_last_error [where e = "env_with 0"
      and ?s1.0 = "(configured [bmp32_2x2, bmp32_1x1])\<lparr>BMP_LAST_ERROR_CODE := BMP_IO_ERROR,
                                                         opid_sent := [[]]\<rparr>"
      and ?s2.0 = "configured [bmp32_2x2]" and data = bmp32_2x2 and ?r1.0 = "[bmp32_1x1]"
      and ?r2.0 = "[]", THEN conjunct1]
    by (simp add: configured_def)
  have len: "length bmp32_2x2 = 70" "length bmp16_1x1 = 58" "length bmp4_header_only = 54"
    "length bmp24_5x1 = 70"
    by (simp_all add: bmp32_2x2_def bmp16_1x1_def bmp4_header_only_def bmp24_5x1_def
        header_bytes_def)
  have h32: "Magic (fst (projr (ReadHeader bmp32_2x2))) = 0x4D42"
    "BitsPerPixel (fst (projr (ReadHeader bmp32_2x2))) = 32"
    "CompressionType (fst (projr (ReadHeader bmp32_2x2))) = 0"
    "HeaderSize (fst (projr (ReadHeader bmp32_2x2))) = 40"
    by (simp_all add: reader_defs bmp32_2x2_def header_bytes_def)
  have h16: "Magic (fst (projr (ReadHeader bmp16_1x1))) = 0x4D42"
    "BitsPerPixel (fst (projr (ReadHeader bmp16_1x1))) = 16"
    by (simp_all add: reader_defs bmp16_1x1_def header_bytes_def)
  have h4: "Magic (fst (projr (ReadHeader bmp4_header_only))) = 0x4D42"
    "BitsPerPixel (fst (projr (ReadHeader bmp4_header_only))) = 4"
    "CompressionType (fst (projr (ReadHeader bmp4_header_only))) = 0"
    "HeaderSize (fst (projr (ReadHeader bmp4_header_only))) = 40"
    by (simp_all add: reader_defs bmp4_header_only_def header_bytes_def)
  have h24: "Magic (fst (projr (ReadHeader bmp24_5x1))) = 0x4D42"
    "BitsPerPixel (fst (projr (ReadHeader bmp24_5x1))) = 24"
    "CompressionType (fst (projr (ReadHeader bmp24_5x1))) = 0"
    "HeaderSize (fst (projr (ReadHeader bmp24_5x1))) = 40"
    by (simp_all add: reader_defs bmp24_5x1_def header_bytes_def)
  have e32: "BMP_LAST_ERROR_CODE (snd (QDBMP_process (env_with 0) (configured [bmp32_2x2])))
      = BMP_OK"
    unfolding decode_result_independent_of_last_error [where e = "env_with 0"
        and st = "configured [bmp32_2x2]",
        THEN conjunct2, THEN conjunct2, THEN conjunct2, THEN conjunct2]
    by (simp add: configured_def env_with_def palettesize_of_def len h32)
  have e16: "BMP_LAST_ERROR_CODE (snd (QDBMP_process (env_with 0) (configured [bmp16_1x1])))
      = BMP_FILE_NOT_SUPPORTED"
    unfolding decode_result_independent_of_last_error [where e = "env_with 0"
        and st = "configured [bmp16_1x1]",
        THEN conjunct2, THEN conjunct2, THEN conjunct2, THEN conjunct2]
    by (simp add: configured_def env_with_def palettesize_of_def len h16)
  have e4: "BMP_LAST_ERROR_CODE (snd (QDBMP_process (env_with 0) (configured [bmp4_header_only])))
      = BMP_FILE_INVALID"
    unfolding decode_result_independent_of_last_error [where e = "env_with 0"
        and st = "configured [bmp4_header_only]",
        THEN conjunct2, THEN conjunct2, THEN conjunct2, THEN conjunct2]
    by (simp add: configured_def env_with_def palettesize_of_def len h4)
  have eshort: "BMP_LAST_ERROR_CODE (snd (QDBMP_process (env_with 0) (configured [[0x42, 0x4D, 0x46]])))
      = BMP_FILE_INVALID"
    unfolding decode_result_independent_of_last_error [where e = "env_with 0"
        and st = "configured [[0x42, 0x4D, 0x46]]",
        THEN conjunct2, THEN conjunct2, THEN conjunct2, THEN conjunct2]
    by (simp add: configured_def env_with_def)
  have e24: "BMP_LAST_ERROR_CODE (snd (QDBMP_process (env_with 0) (configured [bmp24_5x1])))
      = BMP_OK"
    unfolding decode_result_independent_of_last_error [where e = "env_with 0"
        and st = "configured [bmp24_5x1]",
        THEN conjunct2, THEN conjunct2, THEN conjunct2, THEN conjunct2]
    by (simp add: configured_def env_with_def palettesize_of_def len h24)
  have enomem: "BMP_LAST_ERROR_CODE (snd (QDBMP_process ((env_with 0)\<lparr>bmp_alloc_ok := False\<rparr>) (configured [bmp32_2x2])))
      = BMP_OK"
    unfolding decode_result_independent_of_last_error [where e = "(env_with 0)\<lparr>bmp_alloc_ok := False\<rparr>"
        and st = "configured [bmp32_2x2]",
        THEN conjunct2, THEN conjunct2, THEN conjunct2, THEN conjunct2]
    by (simp add: configured_def env_with_def)
  have r24: "fst (QDBMP_process (env_with 0) (configured [bmp24_5x1])) = GF_NOT_SUPPORTED"
    by (simp add: QDBMP_process_def reader_defs stage_defs input_defs bmp24_5x1_def)
  have rnomem: "fst (QDBMP_process ((env_with 0)\<lparr>bmp_alloc_ok := False\<rparr>)
      (configured [bmp32_2x2])) = GF_OUT_OF_MEM"
    by (simp add: QDBMP_process_def configured_def env_with_def)
  show ?thesis
    using two e32 e16 e4 eshort e24 enomem r24 rnomem by (intro conjI) simp_all
qed

text \<open>
  C10 as stated fails: the file holds a variable shared by all calls, and a call
  changes it. Before the call on the file with the wrong magic it is \<^verbatim>\<open>BMP_OK\<close>,
  after the call it is \<^verbatim>\<open>BMP_FILE_INVALID\<close>.
\<close>

theorem decode_overwrites_last_error:
  "BMP_LAST_ERROR_CODE (configured [bmp_bad_magic]) = BMP_OK
   \<and> BMP_LAST_ERROR_CODE (snd (QDBMP_process (env_with 0) (configured [bmp_bad_magic])))
       = BMP_FILE_INVALID"
  by (simp add: QDBMP_process_def reader_defs stage_defs input_defs bmp_bad_magic_def)

end
